theory Spec2Isabelle
  imports Complex_Main "HOL-Library.Multiset" "HOL-Library.Log_Nat"
begin

section \<open>Attachment Style Quiz backend: scoring, classification, submission\<close>

text \<open>
  A shallow embedding of \<^verbatim>\<open>main.py\<close>. Python values that cross the HTTP boundary as
  dictionaries are values of \<open>pyval\<close>; the pydantic models are records; the one
  exception the module raises itself (\<^verbatim>\<open>HTTPException\<close>) and the \<^verbatim>\<open>KeyError\<close> of a
  dictionary subscript are values of \<open>error\<close>.

  Numbers: scores and factor means are exact rationals (\<open>rat\<close>). With integer scores
  Python's sum is exact and its quotient is the double nearest to the exact mean, so
  the exact mean determines the float that \<^verbatim>\<open>round\<close> receives; \<open>double_of\<close> below
  computes that double, and the rounding is decided on it, as in Python. The exponent
  range of a double is taken as unbounded: overflow and subnormal numbers are outside
  the embedding. Strings are byte lists; the two non-ASCII characters of the source texts
  (U+2019 and U+2013) are written as their UTF-8 bytes.
\<close>

subsection \<open>Python values\<close>

datatype pyval =
    PStr string
  | PInt int
  | PFloat rat
  | PList "pyval list"
  | PDict "(pyval \<times> pyval) list"

text \<open>Every string that occurs anywhere in a value: dictionary keys, dictionary values,
  list elements.\<close>

fun strings_in :: "pyval \<Rightarrow> string list" where
  "strings_in (PStr s) = [s]"
| "strings_in (PInt i) = []"
| "strings_in (PFloat r) = []"
| "strings_in (PList xs) = concat (map strings_in xs)"
| "strings_in (PDict kvs) = concat (map (\<lambda>(k, v). strings_in k @ strings_in v) kvs)"

text \<open>\<^verbatim>\<open>d.keys()\<close> and \<^verbatim>\<open>d.get(k)\<close> of a dictionary value; a value that is not a
  dictionary has neither.\<close>

fun dict_keys :: "pyval \<Rightarrow> pyval list" where
  "dict_keys (PDict kvs) = map fst kvs"
| "dict_keys _ = []"

fun dict_get :: "pyval \<Rightarrow> string \<Rightarrow> pyval option" where
  "dict_get (PDict kvs) k = map_of kvs (PStr k)"
| "dict_get _ k = None"

subsection \<open>The question bank and the scale\<close>

text \<open>U+2019 (right single quotation mark) and U+2013 (en dash) in UTF-8.\<close>

definition rsquo :: string where
  "rsquo = [CHR 0xE2, CHR 0x80, CHR 0x99]"

definition ndash :: string where
  "ndash = [CHR 0xE2, CHR 0x80, CHR 0x93]"

text \<open>One entry of \<^verbatim>\<open>QUESTIONS\<close>: a dictionary with the keys \<^verbatim>\<open>id\<close>, \<^verbatim>\<open>text\<close> and
  \<^verbatim>\<open>factor\<close>, all strings.\<close>

record question =
  id_of :: string
  text_of :: string
  factor_of :: string

definition QUESTIONS :: "question list" where
  "QUESTIONS =
    [\<lparr>id_of = ''A1'', text_of = ''I prefer not to show a partner how I feel deep down.'',
      factor_of = ''avoidance''\<rparr>,
     \<lparr>id_of = ''A2'', text_of = ''I find it difficult to depend on close others.'',
      factor_of = ''avoidance''\<rparr>,
     \<lparr>id_of = ''A3'', text_of = ''I don't feel comfortable opening up to romantic partners.'',
      factor_of = ''avoidance''\<rparr>,
     \<lparr>id_of = ''A4'', text_of = ''I prefer not to be too close to others.'',
      factor_of = ''avoidance''\<rparr>,
     \<lparr>id_of = ''A5'', text_of = ''It's important for me to feel independent from others.'',
      factor_of = ''avoidance''\<rparr>,
     \<lparr>id_of = ''A6'',
      text_of = ''I want to get close, but I keep people at arm'' @ rsquo @ ''s length.'',
      factor_of = ''avoidance''\<rparr>,
     \<lparr>id_of = ''X1'', text_of = ''I worry about being abandoned.'',
      factor_of = ''anxiety''\<rparr>,
     \<lparr>id_of = ''X2'', text_of = ''I often worry my partner doesn't really love me.'',
      factor_of = ''anxiety''\<rparr>,
     \<lparr>id_of = ''X3'', text_of = ''I need a lot of reassurance from close others.'',
      factor_of = ''anxiety''\<rparr>,
     \<lparr>id_of = ''X4'',
      text_of = ''I worry that romantic partners won'' @ rsquo @ ''t care as much as I do.'',
      factor_of = ''anxiety''\<rparr>,
     \<lparr>id_of = ''X5'', text_of = ''I get frustrated if I don't get the closeness I want.'',
      factor_of = ''anxiety''\<rparr>,
     \<lparr>id_of = ''X6'', text_of = ''I fear being alone more than most people.'',
      factor_of = ''anxiety''\<rparr>]"

definition SCALE_INFO :: pyval where
  "SCALE_INFO = PDict
    [(PStr ''min'', PInt 1),
     (PStr ''max'', PInt 7),
     (PStr ''labels'', PDict
        [(PInt 1, PStr ''Strongly disagree''),
         (PInt 4, PStr ''Neutral''),
         (PInt 7, PStr ''Strongly agree'')]),
     (PStr ''citation'', PDict
        [(PStr ''name'',
            PStr (''ECR-R (Experiences in Close Relationships '' @ ndash @ '' Revised)'')),
         (PStr ''authors'', PStr ''Fraley, Waller, & Brennan''),
         (PStr ''year'', PInt 2000),
         (PStr ''link'',
            PStr ''https://labs.psychology.illinois.edu/~rcfraley/measures/ecrr.htm'')])]"

text \<open>\<^verbatim>\<open>GET /api/questions\<close>: the list comprehension keeps the bank's order and builds,
  for each question, a dictionary of its \<^verbatim>\<open>id\<close> and \<^verbatim>\<open>text\<close>.\<close>

definition get_questions :: pyval where
  "get_questions = PDict
    [(PStr ''questions'',
        PList (map (\<lambda>q. PDict [(PStr ''id'', PStr (id_of q)), (PStr ''text'', PStr (text_of q))])
                 QUESTIONS)),
     (PStr ''scale'', SCALE_INFO)]"

subsection \<open>Submitted data\<close>

text \<open>Modelled from the spec: the pydantic models \<^verbatim>\<open>QuizAnswer\<close> and \<^verbatim>\<open>QuizResult\<close> of
  \<^verbatim>\<open>schemas.py\<close>, which is not among the sources. The spec gives an answer as
  \<open>{question_id: string, score: number}\<close>, with no server-side check of the score, and a
  result as the seven fields \<^verbatim>\<open>submit_quiz\<close> passes to the constructor, with no
  constraint on any of them.\<close>

record QuizAnswer =
  question_id :: string
  score :: rat

record QuizResult =
  answers_qr :: "QuizAnswer list"
  anxiety_score_qr :: rat
  avoidance_score_qr :: rat
  style_qr :: string
  prevalence_qr :: string
  recommendations_qr :: "string list"
  meta_qr :: "(string \<times> pyval) list"

record SubmitPayload =
  answers :: "QuizAnswer list"
  meta :: "(string \<times> pyval) list"

text \<open>The dictionary \<^verbatim>\<open>submit_quiz\<close> returns, one field per key.\<close>

record SubmitResponse =
  style :: string
  anxiety_score :: rat
  avoidance_score :: rat
  prevalence :: string
  recommendations :: "string list"
  explanation :: string

datatype error =
    HTTPException nat string
  | KeyError string

subsection \<open>Score aggregation\<close>

text \<open>\<^verbatim>\<open>qmap = {q["id"]: q for q in QUESTIONS}\<close>: a later entry with the same id would
  replace an earlier one, so the association list is searched from the back.\<close>

definition qmap :: "string \<rightharpoonup> question" where
  "qmap = map_of (rev (map (\<lambda>q. (id_of q, q)) QUESTIONS))"

text \<open>The initial \<^verbatim>\<open>factor_scores = {"anxiety": [], "avoidance": []}\<close>.\<close>

definition factor_scores_init :: "string \<rightharpoonup> rat list" where
  "factor_scores_init = [''anxiety'' \<mapsto> [], ''avoidance'' \<mapsto> []]"

text \<open>The \<^verbatim>\<open>for ans in answers\<close> loop, with the dictionary of score lists as its state.
  The first unknown question id raises; \<^verbatim>\<open>factor_scores[factor]\<close> raises \<^verbatim>\<open>KeyError\<close>
  for a factor that is not a key.\<close>

fun bucket_answers ::
  "QuizAnswer list \<Rightarrow> (string \<rightharpoonup> rat list) \<Rightarrow> error + (string \<rightharpoonup> rat list)" where
  "bucket_answers [] factor_scores = Inr factor_scores"
| "bucket_answers (ans # rest) factor_scores =
     (case qmap (question_id ans) of
        None \<Rightarrow> Inl (HTTPException 400 (''Unknown question id: '' @ question_id ans))
      | Some q \<Rightarrow>
          (case factor_scores (factor_of q) of
             None \<Rightarrow> Inl (KeyError (factor_of q))
           | Some scores \<Rightarrow>
               bucket_answers rest (factor_scores(factor_of q \<mapsto> scores @ [score ans]))))"

text \<open>\<^verbatim>\<open>sum(xs) / max(1, len(xs))\<close>.\<close>

definition mean_or_zero :: "rat list \<Rightarrow> rat" where
  "mean_or_zero xs = sum_list xs / of_nat (max 1 (length xs))"

definition compute_scores :: "QuizAnswer list \<Rightarrow> error + (rat \<times> rat)" where
  "compute_scores answers' =
     (case bucket_answers answers' factor_scores_init of
        Inl e \<Rightarrow> Inl e
      | Inr factor_scores \<Rightarrow>
          (case (factor_scores ''anxiety'', factor_scores ''avoidance'') of
             (Some anx, Some avo) \<Rightarrow> Inr (mean_or_zero anx, mean_or_zero avo)
           | (None, _) \<Rightarrow> Inl (KeyError ''anxiety'')
           | (_, None) \<Rightarrow> Inl (KeyError ''avoidance'')))"

subsection \<open>Classification\<close>

definition classify_style :: "rat \<Rightarrow> rat \<Rightarrow> string \<times> string \<times> string list" where
  "classify_style anxiety avoidance =
     (let thr = 4 in
      if anxiety < thr \<and> avoidance < thr then
        (''Secure'',
         ''~50% of adults in community samples'',
         [''Maintain open communication and healthy boundaries.'',
          ''Continue investing in supportive relationships.'',
          ''Practice self-reflection to keep patterns secure under stress.''])
      else if anxiety \<ge> thr \<and> avoidance < thr then
        (''Anxious (Preoccupied)'',
         ''~20%'',
         [''Build self-soothing routines (breathing, grounding).'',
          ''Communicate needs clearly without protest behaviors.'',
          ''Seek consistent, responsive partners or therapists.''])
      else if anxiety < thr \<and> avoidance \<ge> thr then
        (''Avoidant (Dismissive)'',
         ''~25%'',
         [''Practice expressing needs and accepting help.'',
          ''Experiment with gradual intimacy and repair attempts.'',
          ''Reflect on autonomy vs. connection to find balance.''])
      else
        (''Fearful-Avoidant (Disorganized)'',
         ''~5'' @ ndash @ ''10%'',
         [''Work on trauma-informed stabilization with a professional.'',
          ''Develop consistent routines for safety and connection.'',
          ''Use titrated exposure to intimacy with trusted others.'']))"

subsection \<open>Rounding\<close>

text \<open>The nearest integer, a tie going to the even one. (HOL's own \<open>round\<close> sends a tie
  upwards.)\<close>

definition round_half_even :: "rat \<Rightarrow> int" where
  "round_half_even y =
     (let f = \<lfloor>y\<rfloor>; d = y - of_int f
      in if d < 1 / 2 then f
         else if 1 / 2 < d then f + 1
         else if even f then f else f + 1)"

text \<open>The double (IEEE 754 binary64, round to nearest, ties to even) nearest to a
  rational: the significand has 53 bits, so a nonzero \<open>x\<close> is scaled by the power of two
  that brings \<open>\<bar>x\<bar>\<close> into \<open>[2\<^sup>5\<^sup>2, 2\<^sup>5\<^sup>3)\<close>, rounded to an integer and scaled back. For
  \<open>\<bar>x\<bar> = p / q\<close> the binary logarithm is found from the bit lengths of \<open>p\<close> and \<open>q\<close>.\<close>

definition double_exponent :: "rat \<Rightarrow> int" where
  "double_exponent x =
     (case quotient_of \<bar>x\<bar> of (p, q) \<Rightarrow>
        let l = bitlen p - bitlen q
        in (if 2 powi l \<le> \<bar>x\<bar> then l else l - 1) - 52)"

definition double_of :: "rat \<Rightarrow> rat" where
  "double_of x =
     (if x = 0 then 0
      else let e = double_exponent x
           in of_int (round_half_even (x / 2 powi e)) * 2 powi e)"

text \<open>Python's \<^verbatim>\<open>round(x, n)\<close> for a float \<open>x\<close> and \<open>n \<ge> 0\<close>: CPython converts the
  double to the correctly rounded decimal with \<open>n\<close> digits after the point, that is, it
  rounds the exact binary value of the double to the nearest multiple of \<open>10\<^sup>-\<^sup>n\<close>, a tie
  going to the even multiple. The argument here is the exact mean; the double Python
  holds for it is \<open>double_of x\<close>. The result is the decimal value; the float Python
  returns is the double nearest to it.\<close>

definition round_py :: "rat \<Rightarrow> nat \<Rightarrow> rat" where
  "round_py x n = of_int (round_half_even (double_of x * 10 ^ n)) / 10 ^ n"

subsection \<open>Submission\<close>

text \<open>Modelled from the spec: \<^verbatim>\<open>create_document\<close> of \<^verbatim>\<open>database.py\<close>, which is not
  among the sources, is the persistence collaborator
  \<open>store(collectionName, record) \<rightarrow> success/failure\<close>. It is a parameter of the
  submission: given the collection name, the record and the state of the store, it
  either returns or raises (an exception derived from \<^verbatim>\<open>Exception\<close>, the class the
  handler catches), and leaves a state of the store either way.\<close>

datatype outcome = Returned | Raised

type_synonym 'db collaborator = "string \<Rightarrow> QuizResult \<Rightarrow> 'db \<Rightarrow> outcome \<times> 'db"

text \<open>\<^verbatim>\<open>POST /api/submit\<close>. An exception of \<^verbatim>\<open>compute_scores\<close> leaves the function before
  the record exists; the \<^verbatim>\<open>try\<close> statement continues after either outcome of the
  collaborator.\<close>

definition submit_quiz ::
  "'db collaborator \<Rightarrow> SubmitPayload \<Rightarrow> 'db \<Rightarrow> (error + SubmitResponse) \<times> 'db" where
  "submit_quiz create_document payload db =
     (case compute_scores (answers payload) of
        Inl e \<Rightarrow> (Inl e, db)
      | Inr (anxiety, avoidance) \<Rightarrow>
          (case classify_style anxiety avoidance of
             (style', prevalence', recs) \<Rightarrow>
               let result = \<lparr>answers_qr = answers payload,
                             anxiety_score_qr = anxiety,
                             avoidance_score_qr = avoidance,
                             style_qr = style',
                             prevalence_qr = prevalence',
                             recommendations_qr = recs,
                             meta_qr = (if meta payload = [] then [] else meta payload)\<rparr>;
                   db' = (case create_document ''quizresult'' result db of
                            (Returned, d) \<Rightarrow> d
                          | (Raised, d) \<Rightarrow> d)
               in (Inr \<lparr>style = style',
                        anxiety_score = round_py anxiety 2,
                        avoidance_score = round_py avoidance 2,
                        prevalence = prevalence',
                        recommendations = recs,
                        explanation = ''Scores are computed on two dimensions (anxiety and avoidance) derived from the validated ECR-R measure.''\<rparr>,
                   db')))"

text \<open>Two collaborators for concrete runs: a store that keeps every record it is given,
  in the order of the calls, and a store that is not configured and raises on every
  call.\<close>

definition recording_store :: "(string \<times> QuizResult) list collaborator" where
  "recording_store collection_name record' db = (Returned, db @ [(collection_name, record')])"

definition failing_store :: "(string \<times> QuizResult) list collaborator" where
  "failing_store collection_name record' db = (Raised, db)"

subsection \<open>The specification's vocabulary\<close>

text \<open>The ids of the bank, in its order.\<close>

definition bank_ids :: "string list" where
  "bank_ids = map id_of QUESTIONS"

text \<open>The specification's side of the aggregation, written from its words and not from
  the loop: the scores, in submission order, of the answers whose question carries the
  factor \<open>f\<close>.\<close>

definition scores_of_factor :: "string \<Rightarrow> QuizAnswer list \<Rightarrow> rat list" where
  "scores_of_factor f as =
     map score (filter (\<lambda>a. \<exists>q \<in> set QUESTIONS. id_of q = question_id a \<and> factor_of q = f) as)"

text \<open>The specification's mean: \<open>sum(scores) / count\<close> if \<open>count > 0\<close>, else \<open>0\<close>.\<close>

definition arithmetic_mean :: "rat list \<Rightarrow> rat" where
  "arithmetic_mean xs = (if 0 < length xs then sum_list xs / of_nat (length xs) else 0)"

section \<open>Facts about the bank and the aggregation loop\<close>

lemma bank_ids_eval: "bank_ids = [''A1'', ''A2'', ''A3'', ''A4'', ''A5'', ''A6'', ''X1'', ''X2'', ''X3'', ''X4'', ''X5'', ''X6'']"
  by (simp add: bank_ids_def QUESTIONS_def)

lemma distinct_bank_ids: "distinct bank_ids"
  by (simp add: bank_ids_eval)

lemma bank_factors: "q \<in> set QUESTIONS \<Longrightarrow> factor_of q = ''anxiety'' \<or> factor_of q = ''avoidance''"
  by (auto simp add: QUESTIONS_def)

lemma qmap_Some_iff: "qmap k = Some q \<longleftrightarrow> q \<in> set QUESTIONS \<and> id_of q = k"
proof -
  have "distinct (map fst (rev (map (\<lambda>q. (id_of q, q)) QUESTIONS)))"
    using distinct_bank_ids by (simp add: bank_ids_def rev_map[symmetric] comp_def distinct_rev)
  then have "map_of (rev (map (\<lambda>q. (id_of q, q)) QUESTIONS)) k = Some q
    \<longleftrightarrow> (k, q) \<in> set (rev (map (\<lambda>q. (id_of q, q)) QUESTIONS))"
    by (rule map_of_eq_Some_iff)
  then show ?thesis by (auto simp add: qmap_def)
qed

lemma qmap_None_iff: "qmap k = None \<longleftrightarrow> k \<notin> set bank_ids"
  by (simp add: qmap_def bank_ids_def map_of_eq_None_iff image_image)


lemma factor_of_answer:
  assumes "qmap (question_id a) = Some q"
  shows "(\<exists>q' \<in> set QUESTIONS. id_of q' = question_id a \<and> factor_of q' = f) \<longleftrightarrow> factor_of q = f"
proof
  assume "\<exists>q' \<in> set QUESTIONS. id_of q' = question_id a \<and> factor_of q' = f"
  then obtain q' where "q' \<in> set QUESTIONS" "id_of q' = question_id a" "factor_of q' = f"
    by blast
  then have "qmap (question_id a) = Some q'" by (simp add: qmap_Some_iff)
  with assms have "q' = q" by simp
  with \<open>factor_of q' = f\<close> show "factor_of q = f" by simp
next
  assume "factor_of q = f"
  with assms show "\<exists>q' \<in> set QUESTIONS. id_of q' = question_id a \<and> factor_of q' = f"
    by (auto simp add: qmap_Some_iff)
qed

lemma scores_of_factor_Nil: "scores_of_factor f [] = []"
  by (simp add: scores_of_factor_def)

lemma scores_of_factor_Cons:
  assumes "qmap (question_id a) = Some q"
  shows "scores_of_factor f (a # as) =
    (if factor_of q = f then score a # scores_of_factor f as else scores_of_factor f as)"
  using factor_of_answer [OF assms, of f] by (simp add: scores_of_factor_def)

lemma bucket_answers_unknown:
  assumes "fs ''anxiety'' \<noteq> None" and "fs ''avoidance'' \<noteq> None"
    and "find (\<lambda>a. qmap (question_id a) = None) as = Some a"
  shows "bucket_answers as fs = Inl (HTTPException 400 (''Unknown question id: '' @ question_id a))"
  using assms
proof (induction as arbitrary: fs)
  case Nil
  then show ?case by simp
next
  case (Cons b as)
  show ?case
  proof (cases "qmap (question_id b)")
    case None
    with Cons.prems show ?thesis by simp
  next
    case (Some q)
    then have "q \<in> set QUESTIONS" by (simp add: qmap_Some_iff)
    then have f: "factor_of q = ''anxiety'' \<or> factor_of q = ''avoidance''" by (rule bank_factors)
    with Cons.prems obtain scores where s: "fs (factor_of q) = Some scores" by auto
    let ?fs = "fs(factor_of q \<mapsto> scores @ [score b])"
    have "?fs ''anxiety'' \<noteq> None" "?fs ''avoidance'' \<noteq> None"
      using Cons.prems by auto
    moreover have "find (\<lambda>a. qmap (question_id a) = None) as = Some a"
      using Cons.prems Some by simp
    ultimately have "bucket_answers as ?fs = Inl (HTTPException 400 (''Unknown question id: '' @ question_id a))"
      by (rule Cons.IH)
    with Some s show ?thesis by simp
  qed
qed

lemma bucket_answers_known:
  assumes "fs ''anxiety'' = Some anx" and "fs ''avoidance'' = Some avo"
    and "find (\<lambda>a. qmap (question_id a) = None) as = None"
  shows "\<exists>fs'. bucket_answers as fs = Inr fs'
      \<and> fs' ''anxiety'' = Some (anx @ scores_of_factor ''anxiety'' as)
      \<and> fs' ''avoidance'' = Some (avo @ scores_of_factor ''avoidance'' as)"
  using assms
proof (induction as arbitrary: fs anx avo)
  case Nil
  then show ?case by (simp add: scores_of_factor_Nil)
next
  case (Cons b as)
  from Cons.prems(3) obtain q where q: "qmap (question_id b) = Some q"
    by (cases "qmap (question_id b)") auto
  from Cons.prems(3) q have rest: "find (\<lambda>a. qmap (question_id a) = None) as = None"
    by simp
  from q have "q \<in> set QUESTIONS" by (simp add: qmap_Some_iff)
  then have "factor_of q = ''anxiety'' \<or> factor_of q = ''avoidance''" by (rule bank_factors)
  then show ?case
  proof
    assume f: "factor_of q = ''anxiety''"
    let ?fs = "fs(''anxiety'' \<mapsto> anx @ [score b])"
    have "?fs ''anxiety'' = Some (anx @ [score b])" "?fs ''avoidance'' = Some avo"
      using Cons.prems by simp_all
    from Cons.IH [OF this rest] obtain fs' where
      "bucket_answers as ?fs = Inr fs'"
      "fs' ''anxiety'' = Some ((anx @ [score b]) @ scores_of_factor ''anxiety'' as)"
      "fs' ''avoidance'' = Some (avo @ scores_of_factor ''avoidance'' as)"
      by blast
    moreover have "bucket_answers (b # as) fs = bucket_answers as ?fs"
      using q f Cons.prems(1) by simp
    ultimately show ?thesis
      using f by (simp add: scores_of_factor_Cons [OF q])
  next
    assume f: "factor_of q = ''avoidance''"
    let ?fs = "fs(''avoidance'' \<mapsto> avo @ [score b])"
    have "?fs ''anxiety'' = Some anx" "?fs ''avoidance'' = Some (avo @ [score b])"
      using Cons.prems by simp_all
    from Cons.IH [OF this rest] obtain fs' where
      "bucket_answers as ?fs = Inr fs'"
      "fs' ''anxiety'' = Some (anx @ scores_of_factor ''anxiety'' as)"
      "fs' ''avoidance'' = Some ((avo @ [score b]) @ scores_of_factor ''avoidance'' as)"
      by blast
    moreover have "bucket_answers (b # as) fs = bucket_answers as ?fs"
      using q f Cons.prems(2) by simp
    ultimately show ?thesis
      using f by (simp add: scores_of_factor_Cons [OF q])
  qed
qed

lemma find_unknown_None_iff:
  "find (\<lambda>a. qmap (question_id a) = None) as = None \<longleftrightarrow> (\<forall>a \<in> set as. question_id a \<in> set bank_ids)"
  by (auto simp add: find_None_iff qmap_None_iff)

lemma compute_scores_known:
  assumes "find (\<lambda>a. qmap (question_id a) = None) as = None"
  shows "compute_scores as =
    Inr (mean_or_zero (scores_of_factor ''anxiety'' as), mean_or_zero (scores_of_factor ''avoidance'' as))"
proof -
  have "factor_scores_init ''anxiety'' = Some []" "factor_scores_init ''avoidance'' = Some []"
    by (simp_all add: factor_scores_init_def)
  from bucket_answers_known [OF this assms] show ?thesis
    by (auto simp add: compute_scores_def)
qed

lemma compute_scores_unknown:
  assumes "find (\<lambda>a. qmap (question_id a) = None) as = Some a"
  shows "compute_scores as = Inl (HTTPException 400 (''Unknown question id: '' @ question_id a))"
proof -
  have "factor_scores_init ''anxiety'' \<noteq> None" "factor_scores_init ''avoidance'' \<noteq> None"
    by (simp_all add: factor_scores_init_def)
  from bucket_answers_unknown [OF this assms] show ?thesis
    by (simp add: compute_scores_def)
qed

lemma mean_or_zero_eq: "mean_or_zero xs = arithmetic_mean xs"
  by (cases xs) (simp_all add: mean_or_zero_def arithmetic_mean_def)

section \<open>Facts about rounding\<close>

lemma round_half_even_near: "\<bar>of_int (round_half_even y) - y\<bar> \<le> 1 / 2"
proof -
  have "of_int \<lfloor>y\<rfloor> \<le> y" "y < of_int \<lfloor>y\<rfloor> + 1"
    using floor_correct [of y] by simp_all
  then show ?thesis
    by (auto simp add: round_half_even_def Let_def abs_le_iff)
qed


lemma double_exponent_upper:
  assumes "x \<noteq> 0"
  shows "\<bar>x\<bar> < 2 powi (double_exponent x + 53)"
proof -
  obtain p q where pq: "quotient_of \<bar>x\<bar> = (p, q)" by (cases "quotient_of \<bar>x\<bar>")
  then have q: "0 < q" and x: "\<bar>x\<bar> = of_int p / of_int q"
    by (simp_all add: quotient_of_denom_pos quotient_of_div)
  have "0 < \<bar>x\<bar>" using assms by simp
  with x q have p: "0 < p"
    by (simp add: zero_less_divide_iff)
  let ?l = "bitlen p - bitlen q"
  show ?thesis
  proof (cases "2 powi ?l \<le> \<bar>x\<bar>")
    case False
    then have "double_exponent x + 53 = ?l"
      by (simp add: double_exponent_def pq)
    then show ?thesis
      using False by (simp only: not_le)
  next
    case True
    have bq: "1 \<le> bitlen q" using q by (simp add: bitlen_alt_def)
    have "p < 2 ^ nat (bitlen p)" "(2::int) ^ nat (bitlen q - 1) \<le> q"
      using bitlen_bounds [OF p] bitlen_bounds [OF q] by simp_all
    then have a: "of_int p < (2::rat) ^ nat (bitlen p)"
      and b: "(2::rat) ^ nat (bitlen q - 1) \<le> of_int q"
      by (metis of_int_less_iff of_int_numeral of_int_power,
          metis of_int_le_iff of_int_numeral of_int_power)
    have l: "?l + 1 = bitlen p - (bitlen q - 1)" by simp
    have "of_int p / of_int q \<le> of_int p / (2::rat) ^ nat (bitlen q - 1)"
      using b p by (simp add: frac_le)
    also have "\<dots> < (2::rat) ^ nat (bitlen p) / 2 ^ nat (bitlen q - 1)"
      using a by (simp add: divide_strict_right_mono)
    also have "(2::rat) ^ nat (bitlen p) = 2 powi bitlen p"
      using bitlen_nonneg [of p] by (simp add: power_int_def)
    also have "(2::rat) ^ nat (bitlen q - 1) = 2 powi (bitlen q - 1)"
      using bq by (simp add: power_int_def)
    also have "(2::rat) powi bitlen p / 2 powi (bitlen q - 1) = 2 powi (?l + 1)"
      by (subst l, rule power_int_diff [symmetric]) simp
    finally have less: "\<bar>x\<bar> < 2 powi (?l + 1)"
      by (simp only: x)
    have "double_exponent x + 53 = ?l + 1"
      using True by (simp add: double_exponent_def pq)
    then show ?thesis
      using less by (simp only:)
  qed
qed


lemma round_half_even_mono_bound:
  assumes "\<bar>y\<bar> \<le> of_int n"
  shows "\<bar>round_half_even y\<bar> \<le> n"
proof -
  have "\<bar>of_int (round_half_even y) - y\<bar> \<le> 1 / 2"
    by (rule round_half_even_near)
  with assms have "\<bar>(of_int (round_half_even y) :: rat)\<bar> \<le> of_int n + 1 / 2"
    by linarith
  then have "(of_int \<bar>round_half_even y\<bar> :: rat) < of_int (n + 1)"
    by simp
  then have "\<bar>round_half_even y\<bar> < n + 1"
    by (simp only: of_int_less_iff)
  then show ?thesis by simp
qed

lemma double_of_significand:
  assumes "x \<noteq> 0"
  shows "\<exists>m. double_of x = of_int m * 2 powi double_exponent x \<and> \<bar>m\<bar> \<le> 2 ^ 53"
proof -
  let ?s = "(2::rat) powi double_exponent x"
  have s: "0 < ?s" by simp
  have "\<bar>x\<bar> < ?s * 2 ^ 53"
    using double_exponent_upper [OF assms] power_int_add [of "2::rat" "double_exponent x" 53]
    by simp
  then have "\<bar>x / ?s\<bar> \<le> of_int (2 ^ 53)"
    using s by (simp add: field_simps)
  then have "\<bar>round_half_even (x / ?s)\<bar> \<le> 2 ^ 53"
    by (rule round_half_even_mono_bound)
  then show ?thesis
    using assms by (auto simp add: double_of_def Let_def)
qed




lemma round_py_0: "round_py 0 2 = 0"
  by (simp add: round_py_def double_of_def round_half_even_def)


lemma round_py_inexact_ties:
  "round_py (203 / 200) 2 = 101 / 100"
  "round_py (1 / 40) 2 = 3 / 100"
  "round_py (9 / 40) 2 = 23 / 100"
  by code_simp+

lemma round_py_exact_ties:
  "round_py (1 / 8) 2 = 12 / 100"
  "round_py (3 / 8) 2 = 38 / 100"
  by code_simp+

section \<open>Facts about the submission\<close>

text \<open>The two ways of saying that an answer's question is not in the bank.\<close>

lemma find_unknown_cong:
  "find (\<lambda>a. qmap (question_id a) = None) as = find (\<lambda>a. question_id a \<notin> set bank_ids) as"
  by (simp add: qmap_None_iff)

text \<open>A submission with an unknown id: the exception of \<open>compute_scores\<close> is the result,
  and the store is as it was.\<close>

lemma submit_quiz_raises:
  assumes "find (\<lambda>a. question_id a \<notin> set bank_ids) (answers payload) = Some a"
  shows "submit_quiz create_document payload db =
    (Inl (HTTPException 400 (''Unknown question id: '' @ question_id a)), db)"
  using assms by (simp add: submit_quiz_def compute_scores_unknown find_unknown_cong)

text \<open>A submission whose ids are all known, in closed form: the response, and the
  store as the collaborator leaves it after its one call.\<close>

lemma submit_quiz_known:
  assumes "\<forall>a \<in> set (answers payload). question_id a \<in> set bank_ids"
  shows "submit_quiz create_document payload db =
    (let anxiety = arithmetic_mean (scores_of_factor ''anxiety'' (answers payload));
         avoidance = arithmetic_mean (scores_of_factor ''avoidance'' (answers payload));
         c = classify_style anxiety avoidance;
         result = \<lparr>answers_qr = answers payload, anxiety_score_qr = anxiety,
                   avoidance_score_qr = avoidance, style_qr = fst c,
                   prevalence_qr = fst (snd c), recommendations_qr = snd (snd c),
                   meta_qr = meta payload\<rparr>
     in (Inr \<lparr>style = fst c, anxiety_score = round_py anxiety 2,
              avoidance_score = round_py avoidance 2, prevalence = fst (snd c),
              recommendations = snd (snd c),
              explanation = ''Scores are computed on two dimensions (anxiety and avoidance) derived from the validated ECR-R measure.''\<rparr>,
         snd (create_document ''quizresult'' result db)))"
proof -
  have "compute_scores (answers payload) =
    Inr (arithmetic_mean (scores_of_factor ''anxiety'' (answers payload)),
         arithmetic_mean (scores_of_factor ''avoidance'' (answers payload)))"
    using assms by (simp add: compute_scores_known find_unknown_None_iff mean_or_zero_eq)
  then show ?thesis
    by (simp add: submit_quiz_def Let_def split: prod.splits outcome.splits)
qed

section \<open>Facts about the question list\<close>

lemma factor_words_not_exposed:
  "''factor'' \<notin> set (strings_in get_questions)"
  "''anxiety'' \<notin> set (strings_in get_questions)"
  "''avoidance'' \<notin> set (strings_in get_questions)"
  by (simp_all add: get_questions_def QUESTIONS_def SCALE_INFO_def rsquo_def ndash_def)

section \<open>The claims\<close>

subsection \<open>C1: the decision table of the classifier\<close>

text \<open>
  Claim C1. For every pair of scores, \<open>classify_style\<close> follows the decision table with
  threshold 4 and a strict comparison for the low branch: each of the four styles is
  returned on exactly one quadrant, the quadrants being \<open>anxiety < 4\<close> or \<open>4 \<le> anxiety\<close>
  against \<open>avoidance < 4\<close> or \<open>4 \<le> avoidance\<close>. So the four branches are exhaustive and
  exclude each other, a score of exactly 4 on an axis is on the high side of that axis,
  and \<open>(4, 4)\<close> is Fearful-Avoidant (Disorganized).
\<close>

theorem classify_style_decision_table:
  "(fst (classify_style anxiety avoidance) = ''Secure'' \<longleftrightarrow> anxiety < 4 \<and> avoidance < 4)
   \<and> (fst (classify_style anxiety avoidance) = ''Anxious (Preoccupied)'' \<longleftrightarrow>
        4 \<le> anxiety \<and> avoidance < 4)
   \<and> (fst (classify_style anxiety avoidance) = ''Avoidant (Dismissive)'' \<longleftrightarrow>
        anxiety < 4 \<and> 4 \<le> avoidance)
   \<and> (fst (classify_style anxiety avoidance) = ''Fearful-Avoidant (Disorganized)'' \<longleftrightarrow>
        4 \<le> anxiety \<and> 4 \<le> avoidance)
   \<and> fst (classify_style 4 4) = ''Fearful-Avoidant (Disorganized)''
   \<and> fst (classify_style 4 avoidance) \<in>
        {''Anxious (Preoccupied)'', ''Fearful-Avoidant (Disorganized)''}
   \<and> fst (classify_style anxiety 4) \<in>
        {''Avoidant (Dismissive)'', ''Fearful-Avoidant (Disorganized)''}"
  by (simp add: classify_style_def Let_def not_less)

subsection \<open>C4: anxiety 3.999 against avoidance 4.0\<close>

text \<open>
  Claim C4 as stated: \<open>classify_style\<close> at anxiety 3.999 and avoidance 4.0 returns
  Anxious (Preoccupied). It does not: anxiety is below the threshold and avoidance is
  at it, which is the third branch of the function.
\<close>

theorem classify_style_3999_counterexample:
  "fst (classify_style (3999 / 1000) 4) \<noteq> ''Anxious (Preoccupied)''"
  by (simp add: classify_style_def)

text \<open>
  Claim C4, amended: \<open>classify_style\<close> at anxiety 3.999 and avoidance 4.0 returns the
  style Avoidant (Dismissive).
\<close>

theorem classify_style_3999:
  "fst (classify_style (3999 / 1000) 4) = ''Avoidant (Dismissive)''"
  by (simp add: classify_style_def)

subsection \<open>C2: the factor means\<close>

text \<open>
  Claim C2. For every list of answers whose question ids are all in the bank,
  \<open>compute_scores\<close> returns (and does not raise) the pair of the arithmetic means of the
  anxiety scores and of the avoidance scores, the mean of no scores being 0.
\<close>

theorem compute_scores_means:
  assumes "\<forall>a \<in> set as. question_id a \<in> set bank_ids"
  shows "compute_scores as =
    Inr (arithmetic_mean (scores_of_factor ''anxiety'' as),
         arithmetic_mean (scores_of_factor ''avoidance'' as))"
  using assms by (simp add: compute_scores_known find_unknown_None_iff mean_or_zero_eq)

text \<open>The specification's example: X1 at 6, X2 at 4 and X3 at 2 give an anxiety mean of
  exactly 4, and the avoidance mean of no answers is 0.\<close>

theorem compute_scores_means_witness:
  "compute_scores [\<lparr>question_id = ''X1'', score = 6\<rparr>, \<lparr>question_id = ''X2'', score = 4\<rparr>,
                   \<lparr>question_id = ''X3'', score = 2\<rparr>] = Inr (4, 0)"
  using compute_scores_means [of "[\<lparr>question_id = ''X1'', score = 6\<rparr>,
    \<lparr>question_id = ''X2'', score = 4\<rparr>, \<lparr>question_id = ''X3'', score = 2\<rparr>]"]
  by (simp add: bank_ids_eval scores_of_factor_def arithmetic_mean_def QUESTIONS_def)

subsection \<open>C3: an unknown question id rejects the submission\<close>

text \<open>
  Claim C3. For every submission with at least one answer whose question id is not in
  the bank, \<open>submit_quiz\<close> ends in the client error \<open>HTTPException 400\<close> whose message
  names the offending id (the first one in submission order), and it does so with every
  persistence collaborator and every state of the store, which is returned unchanged:
  the function leaves before a \<open>QuizResult\<close> is built and before \<open>create_document\<close>
  could be called.
\<close>

theorem submit_quiz_unknown_id:
  assumes "\<exists>a \<in> set (answers payload). question_id a \<notin> set bank_ids"
  shows "\<exists>a. find (\<lambda>a. question_id a \<notin> set bank_ids) (answers payload) = Some a
      \<and> question_id a \<notin> set bank_ids
      \<and> (\<forall>(create_document :: 'db collaborator) db. submit_quiz create_document payload db =
            (Inl (HTTPException 400 (''Unknown question id: '' @ question_id a)), db))"
proof -
  from assms obtain a where a: "find (\<lambda>a. question_id a \<notin> set bank_ids) (answers payload) = Some a"
    by (cases "find (\<lambda>a. question_id a \<notin> set bank_ids) (answers payload)")
       (auto simp add: find_None_iff)
  then have "question_id a \<notin> set bank_ids"
    by (auto simp add: find_Some_iff)
  with a show ?thesis
    by (auto simp add: submit_quiz_raises)
qed

text \<open>The specification's example id \<^verbatim>\<open>Z9\<close>, after a valid answer and before a second
  unknown id, against the store that records every call: the record list stays empty.\<close>

theorem submit_quiz_unknown_id_witness:
  "submit_quiz recording_store
     \<lparr>answers = [\<lparr>question_id = ''X1'', score = 5\<rparr>, \<lparr>question_id = ''Z9'', score = 3\<rparr>,
                 \<lparr>question_id = ''Q7'', score = 1\<rparr>], meta = []\<rparr> []
   = (Inl (HTTPException 400 ''Unknown question id: Z9''), [])"
  using submit_quiz_unknown_id [where 'db = "(string \<times> QuizResult) list" and payload =
    "\<lparr>answers = [\<lparr>question_id = ''X1'', score = 5\<rparr>,
     \<lparr>question_id = ''Z9'', score = 3\<rparr>, \<lparr>question_id = ''Q7'', score = 1\<rparr>], meta = []\<rparr>"]
  by (simp add: bank_ids_eval)

subsection \<open>C5: a failing store does not change the response\<close>

text \<open>
  Claim C5. For every submission with valid question ids there is one response that
  \<open>submit_quiz\<close> returns with every persistence collaborator in every state of the
  store, whatever the collaborator does: in particular with the store that raises on
  every call and with the store that succeeds on every call.
\<close>

theorem submit_quiz_persistence_failure_ignored:
  assumes "\<forall>a \<in> set (answers payload). question_id a \<in> set bank_ids"
  shows "\<exists>response.
      (\<forall>(create_document :: 'db collaborator) db.
          fst (submit_quiz create_document payload db) = Inr response)
    \<and> fst (submit_quiz failing_store payload calls) = Inr response
    \<and> fst (submit_quiz recording_store payload calls) = Inr response"
  using assms by (simp add: submit_quiz_known Let_def)

text \<open>X1 at 6 and A1 at 2: the failing store and the recording store give the same
  response; the failing store holds nothing afterwards, the recording store one record.\<close>

theorem submit_quiz_persistence_failure_ignored_witness:
  "fst (submit_quiz failing_store
          \<lparr>answers = [\<lparr>question_id = ''X1'', score = 6\<rparr>, \<lparr>question_id = ''A1'', score = 2\<rparr>],
           meta = []\<rparr> [])
   = fst (submit_quiz recording_store
          \<lparr>answers = [\<lparr>question_id = ''X1'', score = 6\<rparr>, \<lparr>question_id = ''A1'', score = 2\<rparr>],
           meta = []\<rparr> [])
   \<and> snd (submit_quiz failing_store
          \<lparr>answers = [\<lparr>question_id = ''X1'', score = 6\<rparr>, \<lparr>question_id = ''A1'', score = 2\<rparr>],
           meta = []\<rparr> []) = []
   \<and> length (snd (submit_quiz recording_store
          \<lparr>answers = [\<lparr>question_id = ''X1'', score = 6\<rparr>, \<lparr>question_id = ''A1'', score = 2\<rparr>],
           meta = []\<rparr> [])) = 1"
  using submit_quiz_persistence_failure_ignored [where 'db = unit and calls = "[]" and payload =
    "\<lparr>answers = [\<lparr>question_id = ''X1'', score = 6\<rparr>, \<lparr>question_id = ''A1'', score = 2\<rparr>],
      meta = []\<rparr>"]
  by (auto simp add: bank_ids_eval submit_quiz_known failing_store_def recording_store_def Let_def)

subsection \<open>C6: rounding in the response only\<close>



subsection \<open>C7: the question list hides the factor\<close>

text \<open>
  Claim C7. \<open>get_questions\<close> returns, under the key \<^verbatim>\<open>questions\<close>, one dictionary per
  question of the bank, in the bank's order, each with exactly the keys \<^verbatim>\<open>id\<close> and
  \<^verbatim>\<open>text\<close> and the question's id and text as values. Nowhere in the whole output,
  scale metadata included, does the key \<^verbatim>\<open>factor\<close> or the factor of any question
  occur.
\<close>

theorem get_questions_blind:
  "\<exists>qs. dict_keys get_questions = [PStr ''questions'', PStr ''scale'']
     \<and> dict_get get_questions ''questions'' = Some (PList qs)
     \<and> length qs = length QUESTIONS
     \<and> (\<forall>i < length QUESTIONS.
           qs ! i = PDict [(PStr ''id'', PStr (id_of (QUESTIONS ! i))),
                           (PStr ''text'', PStr (text_of (QUESTIONS ! i)))])
     \<and> (\<forall>q \<in> set qs. dict_keys q = [PStr ''id'', PStr ''text''])
     \<and> ''factor'' \<notin> set (strings_in get_questions)
     \<and> (\<forall>q \<in> set QUESTIONS. factor_of q \<notin> set (strings_in get_questions))"
proof -
  have "\<forall>q \<in> set QUESTIONS. factor_of q \<notin> set (strings_in get_questions)"
    using factor_words_not_exposed(2,3) bank_factors by metis
  moreover have "dict_keys get_questions = [PStr ''questions'', PStr ''scale'']"
    by (simp add: get_questions_def)
  moreover have "dict_get get_questions ''questions'' = Some (PList (map (\<lambda>q.
      PDict [(PStr ''id'', PStr (id_of q)), (PStr ''text'', PStr (text_of q))]) QUESTIONS))"
    by (simp add: get_questions_def)
  ultimately show ?thesis
    using factor_words_not_exposed(1) by auto
qed

text \<open>The seventh entry is question X1 with its text; it has no \<^verbatim>\<open>factor\<close> key, and the
  word \<^verbatim>\<open>anxiety\<close> is not in the output.\<close>

theorem get_questions_blind_witness:
  "\<exists>qs. dict_get get_questions ''questions'' = Some (PList qs)
     \<and> qs ! 6 = PDict [(PStr ''id'', PStr ''X1''),
                       (PStr ''text'', PStr ''I worry about being abandoned.'')]
     \<and> dict_get (qs ! 6) ''factor'' = None
     \<and> ''anxiety'' \<notin> set (strings_in get_questions)"
proof -
  have q6: "6 < length QUESTIONS"
    "QUESTIONS ! 6 = \<lparr>id_of = ''X1'', text_of = ''I worry about being abandoned.'',
                       factor_of = ''anxiety''\<rparr>"
    by (simp_all add: QUESTIONS_def)
  then have mem: "\<lparr>id_of = ''X1'', text_of = ''I worry about being abandoned.'',
                       factor_of = ''anxiety''\<rparr> \<in> set QUESTIONS"
    by (metis nth_mem)
  from get_questions_blind obtain qs where
    qs: "dict_get get_questions ''questions'' = Some (PList qs)"
    and nth: "\<forall>i < length QUESTIONS.
           qs ! i = PDict [(PStr ''id'', PStr (id_of (QUESTIONS ! i))),
                           (PStr ''text'', PStr (text_of (QUESTIONS ! i)))]"
    and blind: "\<forall>q \<in> set QUESTIONS. factor_of q \<notin> set (strings_in get_questions)"
    by blast
  from nth q6 have "qs ! 6 = PDict [(PStr ''id'', PStr ''X1''),
                       (PStr ''text'', PStr ''I worry about being abandoned.'')]"
    by simp
  moreover from blind mem have "''anxiety'' \<notin> set (strings_in get_questions)"
    by fastforce
  ultimately show ?thesis using qs by simp
qed

subsection \<open>C8: the order of the answers does not matter\<close>

text \<open>
  Claim C8. For every list of answers with valid question ids (scores being exact
  numbers, as all numbers of this embedding are) and every permutation of it,
  \<open>compute_scores\<close> returns the same pair.
\<close>

theorem compute_scores_permutation:
  assumes "\<forall>a \<in> set as. question_id a \<in> set bank_ids"
    and "mset as' = mset as"
  shows "compute_scores as' = compute_scores as"
proof -
  from assms(2) have "set as' = set as" by (rule mset_eq_setD)
  with assms(1) have valid': "\<forall>a \<in> set as'. question_id a \<in> set bank_ids" by simp
  have m: "mset (scores_of_factor f as') = mset (scores_of_factor f as)" for f
    using assms(2) by (simp add: scores_of_factor_def)
  have "sum_list (scores_of_factor f as') = sum_list (scores_of_factor f as)" for f
    using m [of f] by (metis sum_mset_sum_list)
  moreover have "length (scores_of_factor f as') = length (scores_of_factor f as)" for f
    using m [of f] by (rule mset_eq_length)
  ultimately have "mean_or_zero (scores_of_factor f as') = mean_or_zero (scores_of_factor f as)" for f
    by (simp add: mean_or_zero_def)
  with assms(1) valid' show ?thesis
    by (simp add: compute_scores_known find_unknown_None_iff)
qed

text \<open>Three answers and a rotation of them.\<close>

theorem compute_scores_permutation_witness:
  "compute_scores [\<lparr>question_id = ''A1'', score = 2\<rparr>, \<lparr>question_id = ''X2'', score = 4\<rparr>,
                   \<lparr>question_id = ''X1'', score = 7\<rparr>]
   = compute_scores [\<lparr>question_id = ''X1'', score = 7\<rparr>, \<lparr>question_id = ''A1'', score = 2\<rparr>,
                     \<lparr>question_id = ''X2'', score = 4\<rparr>]"
  using compute_scores_permutation [of
    "[\<lparr>question_id = ''X1'', score = 7\<rparr>, \<lparr>question_id = ''A1'', score = 2\<rparr>,
      \<lparr>question_id = ''X2'', score = 4\<rparr>]"
    "[\<lparr>question_id = ''A1'', score = 2\<rparr>, \<lparr>question_id = ''X2'', score = 4\<rparr>,
      \<lparr>question_id = ''X1'', score = 7\<rparr>]"]
  by (simp add: bank_ids_eval)

subsection \<open>C9: the only error is an unknown question id\<close>

text \<open>
  Claim C9. A submission ends in an error if and only if some answer's question id is
  not in the bank, and so does \<open>compute_scores\<close>. No condition on the scores appears:
  whatever the scores are, inside the published range 1 to 7 or not, valid ids give the
  arithmetic means of all the scores submitted for each factor.
\<close>

theorem submission_error_iff_unknown_id:
  "((\<exists>e. fst (submit_quiz create_document payload db) = Inl e) \<longleftrightarrow>
      (\<exists>a \<in> set (answers payload). question_id a \<notin> set bank_ids))
   \<and> ((\<exists>e. compute_scores (answers payload) = Inl e) \<longleftrightarrow>
      (\<exists>a \<in> set (answers payload). question_id a \<notin> set bank_ids))
   \<and> ((\<forall>a \<in> set (answers payload). question_id a \<in> set bank_ids) \<longrightarrow>
       compute_scores (answers payload) =
         Inr (arithmetic_mean (scores_of_factor ''anxiety'' (answers payload)),
              arithmetic_mean (scores_of_factor ''avoidance'' (answers payload))))"
proof (cases "\<forall>a \<in> set (answers payload). question_id a \<in> set bank_ids")
  case True
  then have "compute_scores (answers payload) =
    Inr (arithmetic_mean (scores_of_factor ''anxiety'' (answers payload)),
         arithmetic_mean (scores_of_factor ''avoidance'' (answers payload)))"
    by (simp add: compute_scores_known find_unknown_None_iff mean_or_zero_eq)
  with True show ?thesis
    by (auto simp add: submit_quiz_known Let_def)
next
  case False
  then obtain a where "find (\<lambda>a. question_id a \<notin> set bank_ids) (answers payload) = Some a"
    by (cases "find (\<lambda>a. question_id a \<notin> set bank_ids) (answers payload)")
       (auto simp add: find_None_iff)
  with False show ?thesis
    by (auto simp add: submit_quiz_raises compute_scores_unknown find_unknown_cong)
qed

text \<open>Scores 0 and 99: no error, and both take part in the means, (0 + 99) / 2 for
  anxiety and 99 for avoidance.\<close>

theorem submission_error_iff_unknown_id_witness:
  "compute_scores [\<lparr>question_id = ''X1'', score = 0\<rparr>, \<lparr>question_id = ''X2'', score = 99\<rparr>,
                   \<lparr>question_id = ''A1'', score = 99\<rparr>] = Inr (99 / 2, 99)
   \<and> (\<nexists>e. fst (submit_quiz failing_store
          \<lparr>answers = [\<lparr>question_id = ''X1'', score = 0\<rparr>, \<lparr>question_id = ''X2'', score = 99\<rparr>,
                   \<lparr>question_id = ''A1'', score = 99\<rparr>], meta = []\<rparr> []) = Inl e)"
  using submission_error_iff_unknown_id [of failing_store
    "\<lparr>answers = [\<lparr>question_id = ''X1'', score = 0\<rparr>, \<lparr>question_id = ''X2'', score = 99\<rparr>,
                   \<lparr>question_id = ''A1'', score = 99\<rparr>], meta = []\<rparr>" "[]"]
  by (simp add: bank_ids_eval arithmetic_mean_def scores_of_factor_def QUESTIONS_def)

subsection \<open>C10: the empty submission\<close>

text \<open>
  Claim C10. A submission with no answers is not rejected: both means are 0, and the
  response has style Secure, anxiety score 0 and avoidance score 0, with every
  persistence collaborator.
\<close>

theorem submit_quiz_empty:
  "\<exists>response. fst (submit_quiz create_document \<lparr>answers = [], meta = m\<rparr> db) = Inr response
     \<and> style response = ''Secure''
     \<and> anxiety_score response = 0
     \<and> avoidance_score response = 0
     \<and> compute_scores [] = Inr (0, 0)"
  by (simp add: submit_quiz_def compute_scores_def factor_scores_init_def mean_or_zero_def
      classify_style_def round_py_0 Let_def split: prod.splits outcome.splits)

end
